theory Spec2Isabelle
  imports Complex_Main "HOL-Library.Sublist"
begin

section \<open>Data model of \<^verbatim>\<open>browser_auto.py\<close>\<close>

text \<open>
  An action record reported by the agent framework is a Python dictionary. Dictionaries
  iterate in insertion order, and \<^verbatim>\<open>save_actions\<close> depends on that order, so a record is
  the list of its items. The parameter values are opaque to the script (type \<open>'p\<close>).
\<close>

type_synonym 'p action = "(string \<times> 'p) list"

subsection \<open>\<^verbatim>\<open>save_actions\<close>: the reduction loop\<close>

text \<open>
  The inner loop \<^verbatim>\<open>for action_name, parameters in action.items()\<close>: the first item whose
  key is not \<^verbatim>\<open>'interacted_element'\<close> becomes \<^verbatim>\<open>{action_name: parameters}\<close> and the loop
  breaks; a record without such an item falls through the loop.
\<close>

fun first_action :: "'p action \<Rightarrow> 'p action option" where
  "first_action [] = None"
| "first_action ((action_name, parameters) # items) =
     (if action_name \<noteq> ''interacted_element''
      then Some [(action_name, parameters)]
      else first_action items)"

text \<open>
  The outer loop \<^verbatim>\<open>for action in stored_actions\<close>, with the list \<^verbatim>\<open>initial_actions\<close> that
  it appends to as the accumulator.
\<close>

fun save_actions_loop :: "'p action list \<Rightarrow> 'p action list \<Rightarrow> 'p action list" where
  "save_actions_loop initial_actions [] = initial_actions"
| "save_actions_loop initial_actions (action # stored_actions) =
     (case first_action action of
        None \<Rightarrow> save_actions_loop initial_actions stored_actions
      | Some action_dict \<Rightarrow> save_actions_loop (initial_actions @ [action_dict]) stored_actions)"

subsection \<open>Exceptions, outcomes and the outside world\<close>

text \<open>
  An exception value carries the text of \<^verbatim>\<open>str(e)\<close>. Python separates the instances of
  class \<^verbatim>\<open>Exception\<close> from those that derive from \<^verbatim>\<open>BaseException\<close> only
  (\<^verbatim>\<open>KeyboardInterrupt\<close>, \<^verbatim>\<open>SystemExit\<close>, \<^verbatim>\<open>asyncio.CancelledError\<close>); the clause
  \<^verbatim>\<open>except Exception\<close> of \<^verbatim>\<open>fetch_hmm\<close> matches the former only, and the entry point has its
  own \<^verbatim>\<open>except KeyboardInterrupt\<close>.
\<close>

datatype exn = Exception string | BaseException_only string

text \<open>
  A call either returns a value, raises, or (an awaited call into the agent framework)
  never returns.
\<close>

datatype 'a outcome = Returns 'a | Raises exn | Never_returns

text \<open>\<^verbatim>\<open>ChatGoogle(model=..., api_key=...)\<close>.\<close>

record chat_google =
  model :: string
  api_key :: string

text \<open>
  The keyword arguments of \<^verbatim>\<open>Agent(...)\<close>. \<open>'j\<close> is the type of the values that
  \<^verbatim>\<open>json.load\<close> returns; an argument that is not passed is \<open>None\<close>.
\<close>

record 'j agent_config =
  task :: string
  message_context :: "string option"
  initial_actions :: "'j option"
  llm :: chat_google

text \<open>The two callbacks of the script, as they are named in the arguments of \<^verbatim>\<open>agent.run\<close>.\<close>

datatype hook = Anti_detection_hook | Retry_hook

record run_args =
  on_step_start :: hook
  on_step_end :: hook
  max_steps :: nat

text \<open>
  What the script reads from the object that \<^verbatim>\<open>agent.run\<close> returns: \<^verbatim>\<open>final_result()\<close>
  (a string or \<^verbatim>\<open>None\<close>) and \<^verbatim>\<open>model_actions()\<close>.
\<close>

record 'p history =
  final_result :: "string option"
  model_actions :: "'p action list"

text \<open>
  The observable effects, in the order in which they happen: a line printed to standard
  output, a call of the \<^verbatim>\<open>Agent\<close> constructor, a call of \<^verbatim>\<open>agent.run\<close>, and a call
  \<^verbatim>\<open>json.dump(initial_actions, f, indent=2)\<close> on the opened trace file.
\<close>

datatype ('j, 'p) event =
    Print string
  | AgentInit "'j agent_config"
  | AgentRun "'j agent_config" run_args
  | JsonDump "'p action list"

text \<open>
  The world is the text of \<^verbatim>\<open>agent_action_steps.json\<close> (\<open>None\<close> when the file does not
  exist) and the effects so far.
\<close>

record ('j, 'p) world =
  steps_file :: "string option"
  events :: "('j, 'p) event list"

text \<open>
  The collaborators that the script calls but does not define are parameters: whether
  opening the trace file raises, what \<^verbatim>\<open>json.load\<close> makes of its text, whether the
  \<^verbatim>\<open>Agent\<close> constructor raises, the lines printed during \<^verbatim>\<open>agent.run\<close> (the retry hook
  prints) and how the run ends, and the text that \<^verbatim>\<open>json.dump\<close> writes into the file together
  with the exception that interrupts it, if any. \<open>env_api_key\<close> is the module variable
  \<^verbatim>\<open>api_key\<close>.
\<close>

record ('j, 'p) env =
  env_api_key :: string
  open_read :: "exn option"
  json_load :: "string \<Rightarrow> exn + 'j"
  new_agent :: "'j agent_config \<Rightarrow> exn option"
  agent_run :: "'j agent_config \<Rightarrow> run_args \<Rightarrow> string list \<times> 'p history outcome"
  open_write :: "exn option"
  json_dump :: "'p action list \<Rightarrow> string \<times> exn option"

definition print :: "string \<Rightarrow> ('j, 'p) world \<Rightarrow> ('j, 'p) world" where
  "print line w = w\<lparr>events := events w @ [Print line]\<rparr>"

subsection \<open>\<^verbatim>\<open>save_actions\<close>\<close>

text \<open>
  \<^verbatim>\<open>open(..., "w")\<close> truncates the file before \<^verbatim>\<open>json.dump\<close> writes, so when \<^verbatim>\<open>json.dump\<close>
  raises, the file holds what was written until then.
\<close>

definition save_actions ::
  "('j, 'p) env \<Rightarrow> 'p action list \<Rightarrow> ('j, 'p) world \<Rightarrow> ('j, 'p) world \<times> unit outcome" where
  "save_actions env stored_actions w =
     (case open_write env of
        Some e \<Rightarrow> (w, Raises e)
      | None \<Rightarrow>
          (case json_dump env (save_actions_loop [] stored_actions) of
             (text, raised) \<Rightarrow>
               (w\<lparr>steps_file := Some text,
                   events := events w @ [JsonDump (save_actions_loop [] stored_actions)]\<rparr>,
                case raised of Some e \<Rightarrow> Raises e | None \<Rightarrow> Returns ())))"

subsection \<open>\<^verbatim>\<open>fetch_hmm\<close>\<close>

definition gemini :: "('j, 'p) env \<Rightarrow> chat_google" where
  "gemini env = \<lparr>model = ''gemini-2.0-flash'', api_key = env_api_key env\<rparr>"

text \<open>The three f-strings, character by character (\<open>\<newline>\<close> is the line feed).\<close>

definition replay_task :: "string \<Rightarrow> string" where
  \<open>replay_task booking_id =
     ''Given an HMM booking ID "''
     @ booking_id
     @ ''", retrieve voyage and arrival from HMM Shipping line.''\<close>

definition replay_message_context :: "string \<Rightarrow> string" where
  \<open>replay_message_context booking_id =
     ''Replaying previous actions with new booking ID "''
     @ booking_id
     @ ''"\<newline>''
     @ ''                                and return the new voyage number and arrival date in the format \<newline>''
     @ ''                                Voyage: <voyage_number>, Arrival: <arrival_date>''\<close>

definition fresh_task :: "string \<Rightarrow> string" where
  \<open>fresh_task booking_id =
     ''\<newline>''
     @ ''            Your task:\<newline>''
     @ ''            Given an HMM booking ID "''
     @ booking_id
     @ ''", retrieve voyage and arrival from HMM Shipping line.\<newline>''
     @ ''            First, navigate to exactly website: http://www.seacargotracking.net/\<newline>''
     @ ''            Scroll down to find and navigate to the link "HYUNDAI Merchant Marine (HMM)" and stay on that link\<newline>''
     @ ''            Scroll down to find "Track and Trace" and input the booking ID in the box and search.\<newline>''
     @ ''            Wait for the results to load or try Refreshing the page only if Blocked by the website.\<newline>''
     @ ''            Scroll down to find the voyage number and arrival date.\<newline>''
     @ ''            Only return the Final Answer in the format "Voyage: <voyage_number>, Arrival: <arrival_date>"\<newline>''
     @ ''            ''\<close>

definition replay_agent :: "('j, 'p) env \<Rightarrow> string \<Rightarrow> 'j \<Rightarrow> 'j agent_config" where
  "replay_agent env booking_id loaded =
     \<lparr>task = replay_task booking_id,
      message_context = Some (replay_message_context booking_id),
      initial_actions = Some loaded,
      llm = gemini env\<rparr>"

definition fresh_agent :: "('j, 'p) env \<Rightarrow> string \<Rightarrow> 'j agent_config" where
  "fresh_agent env booking_id =
     \<lparr>task = fresh_task booking_id,
      message_context = None,
      initial_actions = None,
      llm = gemini env\<rparr>"

text \<open>The arguments of both calls of \<^verbatim>\<open>agent.run\<close>.\<close>

definition hooked_run :: run_args where
  "hooked_run =
     \<lparr>on_step_start = Anti_detection_hook, on_step_end = Retry_hook, max_steps = 20\<rparr>"

text \<open>\<^verbatim>\<open>if final_result:\<close> holds for a string that is not empty, and fails for \<^verbatim>\<open>None\<close>.\<close>

definition truthy :: "string option \<Rightarrow> bool" where
  "truthy r = (case r of None \<Rightarrow> False | Some s \<Rightarrow> s \<noteq> [])"

text \<open>
  \<^verbatim>\<open>agent = Agent(...)\<close> followed by \<^verbatim>\<open>result = await agent.run(...)\<close>: the part that the two
  branches share. The lines printed during the run reach standard output whatever its end.
\<close>

definition run_agent ::
  "('j, 'p) env \<Rightarrow> 'j agent_config \<Rightarrow> ('j, 'p) world \<Rightarrow> ('j, 'p) world \<times> 'p history outcome" where
  "run_agent env agent w =
     (case new_agent env agent of
        Some e \<Rightarrow> (w\<lparr>events := events w @ [AgentInit agent]\<rparr>, Raises e)
      | None \<Rightarrow>
          (case agent_run env agent hooked_run of
             (printed, result) \<Rightarrow>
               (w\<lparr>events := events w @ [AgentInit agent, AgentRun agent hooked_run]
                               @ map Print printed\<rparr>,
                result)))"

text \<open>The body of the \<^verbatim>\<open>try\<close> block.\<close>

definition fetch_hmm_try ::
  "('j, 'p) env \<Rightarrow> string \<Rightarrow> ('j, 'p) world \<Rightarrow> ('j, 'p) world \<times> string option outcome" where
  "fetch_hmm_try env booking_id w =
     (case steps_file w of
        Some text \<Rightarrow>
          (case open_read env of
             Some e \<Rightarrow> (w, Raises e)
           | None \<Rightarrow>
               (case json_load env text of
                  Inl e \<Rightarrow> (w, Raises e)
                | Inr loaded \<Rightarrow>
                    (case run_agent env (replay_agent env booking_id loaded) w of
                       (w', Returns result) \<Rightarrow>
                         if truthy (final_result result)
                         then (w', Returns (final_result result))
                         else (w', Returns (Some ''No results found''))
                     | (w', Raises e) \<Rightarrow> (w', Raises e)
                     | (w', Never_returns) \<Rightarrow> (w', Never_returns))))
      | None \<Rightarrow>
          (case run_agent env (fresh_agent env booking_id) w of
             (w', Returns result) \<Rightarrow>
               if truthy (final_result result)
               then (case save_actions env (model_actions result) w' of
                       (w'', Returns u) \<Rightarrow> (w'', Returns (final_result result))
                     | (w'', Raises e) \<Rightarrow> (w'', Raises e)
                     | (w'', Never_returns) \<Rightarrow> (w'', Never_returns))
               else (w', Returns (Some ''No results found''))
           | (w', Raises e) \<Rightarrow> (w', Raises e)
           | (w', Never_returns) \<Rightarrow> (w', Never_returns)))"

text \<open>
  \<^verbatim>\<open>except Exception as e: print(f"Error during cleanup: {e}")\<close>, after which the function
  ends without a \<^verbatim>\<open>return\<close>: its value is \<^verbatim>\<open>None\<close>.
\<close>

definition fetch_hmm ::
  "('j, 'p) env \<Rightarrow> string \<Rightarrow> ('j, 'p) world \<Rightarrow> ('j, 'p) world \<times> string option outcome" where
  "fetch_hmm env booking_id w =
     (case fetch_hmm_try env booking_id w of
        (w', Raises (Exception msg)) \<Rightarrow> (print (''Error during cleanup: '' @ msg) w', Returns None)
      | (w', Raises (BaseException_only msg)) \<Rightarrow> (w', Raises (BaseException_only msg))
      | (w', Returns r) \<Rightarrow> (w', Returns r)
      | (w', Never_returns) \<Rightarrow> (w', Never_returns))"

subsection \<open>\<^verbatim>\<open>retry_hook\<close>\<close>

text \<open>
  \<^verbatim>\<open>str.lower()\<close> on a string of bytes: the letters \<^verbatim>\<open>A\<close> to \<^verbatim>\<open>Z\<close> become \<^verbatim>\<open>a\<close> to \<^verbatim>\<open>z\<close>
  and every other byte is kept.
\<close>

definition lower_char :: "char \<Rightarrow> char" where
  "lower_char c =
     (case map_of (zip ''ABCDEFGHIJKLMNOPQRSTUVWXYZ'' ''abcdefghijklmnopqrstuvwxyz'') c of
        Some l \<Rightarrow> l
      | None \<Rightarrow> c)"

definition lower :: "string \<Rightarrow> string" where
  "lower s = map lower_char s"

definition error_indicators :: "string list" where
  "error_indicators = [''error'', ''failed'', ''invalid'', ''incorrect'', ''unable'']"

text \<open>
  What the hook touches of the agent: the outcome of
  \<^verbatim>\<open>await agent.browser_session.get_current_page()\<close> (the page's \<^verbatim>\<open>url\<close>, or an exception),
  the instructions handed to \<^verbatim>\<open>agent.add_new_task\<close>, and the lines printed.
\<close>

record agent =
  get_current_page :: "exn + string"
  add_new_task :: "string list"
  printed :: "string list"

text \<open>\<^verbatim>\<open>err in current_url.lower()\<close> is the test for a contiguous sublist.\<close>

definition retry_hook :: "agent \<Rightarrow> agent \<times> unit outcome" where
  "retry_hook agent =
     (case get_current_page agent of
        Inl e \<Rightarrow> (agent, Raises e)
      | Inr current_url \<Rightarrow>
          if list_ex (\<lambda>err. sublist err (lower current_url)) error_indicators
          then (agent\<lparr>printed := printed agent @ [''Detected failure condition, will retry...''],
                      add_new_task := add_new_task agent @ [''Retry to complete the original task'']\<rparr>,
                Returns ())
          else (agent, Returns ()))"

subsection \<open>\<^verbatim>\<open>anti_detection_hook\<close>\<close>





section \<open>Observations on the model\<close>

text \<open>
  What one record contributes to the written list, in the words of the specification: the
  first item whose key is not \<^verbatim>\<open>'interacted_element'\<close>, unchanged, as a record of its own,
  and nothing when there is no such item.
\<close>

definition contribution :: "'p action \<Rightarrow> 'p action list" where
  "contribution action =
     (case find (\<lambda>item. fst item \<noteq> ''interacted_element'') action of
        None \<Rightarrow> []
      | Some item \<Rightarrow> [[item]])"

definition has_action_key :: "'p action \<Rightarrow> bool" where
  "has_action_key action = list_ex (\<lambda>item. fst item \<noteq> ''interacted_element'') action"

text \<open>The effects that a call added to the world, and the projections of a list of effects.\<close>

definition effects :: "('j, 'p) world \<Rightarrow> ('j, 'p) world \<Rightarrow> ('j, 'p) event list" where
  "effects w w' = drop (length (events w)) (events w')"

fun agent_inits :: "('j, 'p) event list \<Rightarrow> 'j agent_config list" where
  "agent_inits [] = []"
| "agent_inits (AgentInit agent # es) = agent # agent_inits es"
| "agent_inits (e # es) = agent_inits es"

fun run_calls :: "('j, 'p) event list \<Rightarrow> ('j agent_config \<times> run_args) list" where
  "run_calls [] = []"
| "run_calls (AgentRun agent args # es) = (agent, args) # run_calls es"
| "run_calls (e # es) = run_calls es"

fun dumps :: "('j, 'p) event list \<Rightarrow> 'p action list list" where
  "dumps [] = []"
| "dumps (JsonDump actions # es) = actions # dumps es"
| "dumps (e # es) = dumps es"

text \<open>The agents that exist after the effects: those whose constructor returned.\<close>

definition built_agents :: "('j, 'p) env \<Rightarrow> ('j, 'p) event list \<Rightarrow> 'j agent_config list" where
  "built_agents env es = filter (\<lambda>agent. new_agent env agent = None) (agent_inits es)"

text \<open>
  The final answer that the run of an agent reports: none when the constructor raises, when
  the run raises or never returns, or when \<^verbatim>\<open>final_result()\<close> fails the test
  \<^verbatim>\<open>if final_result:\<close>.
\<close>

definition reported_answer :: "('j, 'p) env \<Rightarrow> 'j agent_config \<Rightarrow> string option" where
  "reported_answer env agent =
     (case new_agent env agent of
        Some e \<Rightarrow> None
      | None \<Rightarrow>
          (case snd (agent_run env agent hooked_run) of
             Returns result \<Rightarrow> if truthy (final_result result) then final_result result else None
           | Raises e \<Rightarrow> None
           | Never_returns \<Rightarrow> None))"

text \<open>The effects of the three stages of \<^verbatim>\<open>fetch_hmm\<close>, used to state what it emits.\<close>

definition run_effects :: "('j, 'p) env \<Rightarrow> 'j agent_config \<Rightarrow> ('j, 'p) event list" where
  "run_effects env agent =
     AgentInit agent #
       (if new_agent env agent = None
        then AgentRun agent hooked_run # map Print (fst (agent_run env agent hooked_run))
        else [])"

definition save_effects :: "('j, 'p) env \<Rightarrow> 'j agent_config \<Rightarrow> ('j, 'p) event list" where
  "save_effects env agent =
     (case new_agent env agent of
        Some e \<Rightarrow> []
      | None \<Rightarrow>
         (case snd (agent_run env agent hooked_run) of
            Returns result \<Rightarrow>
              if truthy (final_result result) \<and> open_write env = None
              then [JsonDump (save_actions_loop [] (model_actions result))] else []
          | Raises e \<Rightarrow> []
          | Never_returns \<Rightarrow> []))"

definition cleanup_print :: "'a outcome \<Rightarrow> ('j, 'p) event list" where
  "cleanup_print r =
     (case r of Raises (Exception msg) \<Rightarrow> [Print (''Error during cleanup: '' @ msg)] | _ \<Rightarrow> [])"

text \<open>
  An exception is swallowed when \<^verbatim>\<open>fetch_hmm\<close> returns \<^verbatim>\<open>None\<close> and the last line printed is
  the one of its \<^verbatim>\<open>except\<close> clause for that exception.
\<close>

definition swallowed :: "('j, 'p) env \<Rightarrow> string \<Rightarrow> ('j, 'p) world \<Rightarrow> string \<Rightarrow> bool" where
  "swallowed env booking_id w msg =
     (snd (fetch_hmm env booking_id w) = Returns None
      \<and> last (events (fst (fetch_hmm env booking_id w))) = Print (''Error during cleanup: '' @ msg))"

text \<open>
  Containment without regard to case, and the shape \<^verbatim>\<open>Voyage: <text>, Arrival: <text>\<close> that the
  docstring of \<^verbatim>\<open>fetch_hmm\<close> announces.
\<close>

definition contains_ignoring_case :: "string \<Rightarrow> string \<Rightarrow> bool" where
  "contains_ignoring_case needle haystack = sublist (lower needle) (lower haystack)"

definition voyage_arrival_format :: "string \<Rightarrow> bool" where
  "voyage_arrival_format s =
     (prefix ''Voyage: '' s \<and> sublist '', Arrival: '' (drop (length ''Voyage: '') s))"

section \<open>Concrete collaborators and inputs\<close>

text \<open>
  A JSON library cut down to two documents (the empty list, and the list of one record
  \<^verbatim>\<open>{"done": 1}\<close> as \<^verbatim>\<open>json.dump(..., indent=2)\<close> prints it); any other text fails to parse and
  any other list fails to serialise after the opening bracket.
\<close>

definition done_text :: string where
  \<open>done_text = ''[\<newline>  {\<newline>    "done": 1\<newline>  }\<newline>]''\<close>

definition example_json_load :: "string \<Rightarrow> exn + nat action list" where
  "example_json_load contents =
     (if contents = ''[]'' then Inr []
      else if contents = done_text then Inr [[(''done'', 1)]]
      else Inl (Exception ''Expecting value: line 1 column 1 (char 0)''))"

definition example_json_dump :: "nat action list \<Rightarrow> string \<times> exn option" where
  "example_json_dump actions =
     (if actions = [] then (''[]'', None)
      else if actions = [[(''done'', 1)]] then (done_text, None)
      else (''['', Some (Exception ''Object of type DOMHistoryElement is not JSON serializable'')))"

text \<open>An environment in which every call succeeds and the run of the agent ends as given.\<close>

definition example_env :: "string list \<times> nat history outcome \<Rightarrow> (nat action list, nat) env" where
  "example_env run =
     \<lparr>env_api_key = ''secret'',
      open_read = None,
      json_load = example_json_load,
      new_agent = (\<lambda>agent. None),
      agent_run = (\<lambda>agent args. run),
      open_write = None,
      json_dump = example_json_dump\<rparr>"

text \<open>A run that prints nothing and ends with the given final answer after one \<^verbatim>\<open>done\<close> action.\<close>

definition answered :: "string option \<Rightarrow> string list \<times> nat history outcome" where
  "answered answer =
     ([], Returns \<lparr>final_result = answer,
                   model_actions = [[(''done'', 1), (''interacted_element'', 0)]]\<rparr>)"

definition no_trace :: "(nat action list, nat) world" where
  "no_trace = \<lparr>steps_file = None, events = []\<rparr>"

definition trace :: "string \<Rightarrow> (nat action list, nat) world" where
  "trace contents = \<lparr>steps_file = Some contents, events = []\<rparr>"

definition example_actions :: "nat action list" where
  "example_actions =
     [[(''go_to_url'', 1), (''interacted_element'', 0)],
      [(''interacted_element'', 0), (''click_element'', 2), (''input_text'', 3)],
      [(''done'', 4)]]"

definition example_page :: "string \<Rightarrow> agent" where
  "example_page current_url =
     \<lparr>get_current_page = Inr current_url, add_new_task = [], printed = []\<rparr>"

text \<open>\<^verbatim>\<open>KeyboardInterrupt()\<close>, whose \<^verbatim>\<open>str\<close> is empty, and an answer in the announced format.\<close>

definition keyboard_interrupt :: exn where
  "keyboard_interrupt = BaseException_only []"

definition example_answer :: string where
  "example_answer = ''Voyage: 0012E, Arrival: 2025-08-01''"

text \<open>
  A run that answers after a click whose record the cut-down serialiser rejects, an
  environment whose \<^verbatim>\<open>Agent\<close> constructor refuses its arguments, \<^verbatim>\<open>SystemExit(1)\<close>, an agent
  whose page is there and that has neither slept nor moved the pointer, and random sources
  that draw fixed values.
\<close>

definition answered_after_click :: "string list \<times> nat history outcome" where
  "answered_after_click =
     ([], Returns \<lparr>final_result = Some example_answer,
                   model_actions = [[(''click_element'', 2), (''interacted_element'', 0)]]\<rparr>)"

definition refusing_env :: "(nat action list, nat) env" where
  "refusing_env =
     \<lparr>env_api_key = ''secret'',
      open_read = None,
      json_load = example_json_load,
      new_agent = (\<lambda>agent. Some (Exception ''1 validation error for ActionModel'')),
      agent_run = (\<lambda>agent args. answered None),
      open_write = None,
      json_dump = example_json_dump\<rparr>"

definition system_exit :: exn where
  "system_exit = BaseException_only ''1''"



lemmas example_defs = example_env_def answered_def no_trace_def trace_def example_json_load_def
  example_json_dump_def done_text_def

section \<open>Lemmas\<close>

subsection \<open>The reduction loop\<close>

lemma find_Some_mem: "find P xs = Some x \<Longrightarrow> x \<in> set xs \<and> P x"
  by (induction xs) (auto split: if_splits)

lemma first_action_find:
  "first_action action =
     map_option (\<lambda>item. [item]) (find (\<lambda>item. fst item \<noteq> ''interacted_element'') action)"
  by (induction action rule: first_action.induct) simp_all

lemma save_actions_loop_concat:
  "save_actions_loop acc stored = acc @ concat (map contribution stored)"
proof (induction stored arbitrary: acc)
  case Nil
  show ?case by simp
next
  case (Cons a stored)
  show ?case
    by (cases "find (\<lambda>item. fst item \<noteq> ''interacted_element'') a")
       (simp_all add: Cons.IH first_action_find contribution_def)
qed

lemma contribution_cases:
  "contribution action =
     (if has_action_key action
      then [[the (find (\<lambda>item. fst item \<noteq> ''interacted_element'') action)]]
      else [])"
  by (auto simp: contribution_def has_action_key_def list_ex_iff find_None_iff
      split: option.splits dest: find_Some_mem)

lemma length_concat_contribution:
  "length (concat (map contribution stored)) = length (filter has_action_key stored)"
  by (induction stored) (simp_all add: contribution_cases)

lemma contribution_shape:
  "r \<in> set (contribution action) \<Longrightarrow>
     \<exists>k p. r = [(k, p)] \<and> k \<noteq> ''interacted_element'' \<and> (k, p) \<in> set action"
  by (cases "find (\<lambda>item. fst item \<noteq> ''interacted_element'') action")
     (auto simp: contribution_def dest: find_Some_mem)

lemma save_actions_loop_map_filter:
  "save_actions_loop acc stored =
     acc @ List.map_filter
       (\<lambda>action. map_option (\<lambda>item. [item])
          (find (\<lambda>item. fst item \<noteq> ''interacted_element'') action)) stored"
proof (induction stored arbitrary: acc)
  case Nil
  show ?case by (simp add: List.map_filter_simps)
next
  case (Cons a stored)
  show ?case
    by (cases "find (\<lambda>item. fst item \<noteq> ''interacted_element'') a")
       (simp_all add: Cons.IH first_action_find List.map_filter_simps)
qed

lemma has_action_key_find:
  "has_action_key action \<Longrightarrow>
     \<exists>item. find (\<lambda>item. fst item \<noteq> ''interacted_element'') action = Some item"
  by (cases "find (\<lambda>item. fst item \<noteq> ''interacted_element'') action")
     (auto simp: has_action_key_def list_ex_iff find_None_iff)

lemma save_actions_loop_nth:
  assumes "\<forall>action \<in> set stored. has_action_key action" "i < length stored"
  shows "\<exists>item. find (\<lambda>item. fst item \<noteq> ''interacted_element'') (stored ! i) = Some item
           \<and> save_actions_loop acc stored ! (length acc + i) = [item]"
  using assms
proof (induction stored arbitrary: acc i)
  case Nil
  then show ?case by simp
next
  case (Cons a stored)
  from Cons.prems(1) obtain item where
    f: "find (\<lambda>item. fst item \<noteq> ''interacted_element'') a = Some item"
    using has_action_key_find[of a] by auto
  show ?case
  proof (cases i)
    case 0
    then show ?thesis
      by (simp add: f first_action_find save_actions_loop_concat[of "acc @ [[item]]"]
            nth_append)
  next
    case (Suc j)
    with Cons.prems have j: "j < length stored" "\<forall>action \<in> set stored. has_action_key action"
      by simp_all
    from Cons.IH[OF j(2) j(1), of "acc @ [[item]]"] Suc show ?thesis
      by (simp add: f first_action_find)
  qed
qed

subsection \<open>Projections of effects\<close>

lemma agent_inits_append: "agent_inits (xs @ ys) = agent_inits xs @ agent_inits ys"
  by (induction xs rule: agent_inits.induct) simp_all

lemma run_calls_append: "run_calls (xs @ ys) = run_calls xs @ run_calls ys"
  by (induction xs rule: run_calls.induct) simp_all

lemma dumps_append: "dumps (xs @ ys) = dumps xs @ dumps ys"
  by (induction xs rule: dumps.induct) simp_all

lemma agent_inits_Print: "agent_inits (map Print ls) = []"
  by (induction ls) simp_all

lemma run_calls_Print: "run_calls (map Print ls) = []"
  by (induction ls) simp_all

lemma dumps_Print: "dumps (map Print ls) = []"
  by (induction ls) simp_all

lemma effects_append: "events w' = events w @ new \<Longrightarrow> effects w w' = new"
  by (simp add: effects_def)

lemma run_effects_calls:
  "run_calls (run_effects env agent) =
     (if new_agent env agent = None then [(agent, hooked_run)] else [])"
  "agent_inits (run_effects env agent) = [agent]"
  "dumps (run_effects env agent) = []"
  by (simp_all add: run_effects_def run_calls_Print agent_inits_Print dumps_Print)

lemma save_effects_calls:
  "run_calls (save_effects env agent) = []" "agent_inits (save_effects env agent) = []"
  by (simp_all add: save_effects_def split: option.splits outcome.splits)

lemma save_effects_no_answer:
  "reported_answer env agent = None \<Longrightarrow> save_effects env agent = []"
  by (auto simp: reported_answer_def save_effects_def truthy_def
      split: option.splits outcome.splits if_splits)

lemma cleanup_print_calls:
  "run_calls (cleanup_print r) = []" "dumps (cleanup_print r) = []"
  "agent_inits (cleanup_print r) = []"
  by (simp_all add: cleanup_print_def split: outcome.splits exn.splits)

subsection \<open>\<^verbatim>\<open>save_actions\<close> and the shared agent run\<close>

lemma save_actions_effects:
  "events (fst (save_actions env stored w)) =
     events w @ (if open_write env = None then [JsonDump (save_actions_loop [] stored)] else [])"
  by (simp add: save_actions_def split: option.splits prod.splits)

lemma save_actions_outcome:
  "snd (save_actions env stored w) =
     (case open_write env of
        Some e \<Rightarrow> Raises e
      | None \<Rightarrow>
          (case snd (json_dump env (save_actions_loop [] stored)) of
             Some e \<Rightarrow> Raises e
           | None \<Rightarrow> Returns ()))"
  by (simp add: save_actions_def split: option.splits prod.splits)

lemma save_actions_file:
  "steps_file (fst (save_actions env stored w)) =
     (if open_write env = None then Some (fst (json_dump env (save_actions_loop [] stored)))
      else steps_file w)"
  by (simp add: save_actions_def split: option.splits prod.splits)

lemma run_agent_effects:
  "events (fst (run_agent env agent w)) = events w @ run_effects env agent"
  by (simp add: run_agent_def run_effects_def split: option.splits prod.splits)

lemma run_agent_file: "steps_file (fst (run_agent env agent w)) = steps_file w"
  by (simp add: run_agent_def split: option.splits prod.splits)

lemma run_agent_outcome:
  "snd (run_agent env agent w) =
     (case new_agent env agent of
        Some e \<Rightarrow> Raises e
      | None \<Rightarrow> snd (agent_run env agent hooked_run))"
  by (simp add: run_agent_def split: option.splits prod.splits)

subsection \<open>The body of the \<^verbatim>\<open>try\<close> block, branch by branch\<close>

lemma try_replay:
  assumes "steps_file w = Some contents"
  shows "fetch_hmm_try env b w =
     (case open_read env of
        Some e \<Rightarrow> (w, Raises e)
      | None \<Rightarrow>
         (case json_load env contents of
            Inl e \<Rightarrow> (w, Raises e)
          | Inr loaded \<Rightarrow>
              (fst (run_agent env (replay_agent env b loaded) w),
               case snd (run_agent env (replay_agent env b loaded) w) of
                 Returns result \<Rightarrow>
                   Returns (if truthy (final_result result) then final_result result
                            else Some ''No results found'')
               | Raises e \<Rightarrow> Raises e
               | Never_returns \<Rightarrow> Never_returns)))"
  using assms
  by (simp add: fetch_hmm_try_def split: option.splits sum.splits prod.splits outcome.splits)

lemma try_fresh:
  assumes "steps_file w = None"
  shows "fetch_hmm_try env b w =
     (case snd (run_agent env (fresh_agent env b) w) of
        Returns result \<Rightarrow>
          if truthy (final_result result)
          then (fst (save_actions env (model_actions result)
                       (fst (run_agent env (fresh_agent env b) w))),
                case snd (save_actions env (model_actions result)
                            (fst (run_agent env (fresh_agent env b) w))) of
                  Returns u \<Rightarrow> Returns (final_result result)
                | Raises e \<Rightarrow> Raises e
                | Never_returns \<Rightarrow> Never_returns)
          else (fst (run_agent env (fresh_agent env b) w), Returns (Some ''No results found''))
      | Raises e \<Rightarrow> (fst (run_agent env (fresh_agent env b) w), Raises e)
      | Never_returns \<Rightarrow> (fst (run_agent env (fresh_agent env b) w), Never_returns))"
  using assms
  by (simp add: fetch_hmm_try_def split: option.splits sum.splits prod.splits outcome.splits)

lemma try_outcome_replay:
  assumes "steps_file w = Some contents"
  shows "snd (fetch_hmm_try env b w) =
     (case open_read env of
        Some e \<Rightarrow> Raises e
      | None \<Rightarrow>
         (case json_load env contents of
            Inl e \<Rightarrow> Raises e
          | Inr loaded \<Rightarrow>
             (case new_agent env (replay_agent env b loaded) of
                Some e \<Rightarrow> Raises e
              | None \<Rightarrow>
                 (case snd (agent_run env (replay_agent env b loaded) hooked_run) of
                    Returns result \<Rightarrow>
                      Returns (if truthy (final_result result) then final_result result
                               else Some ''No results found'')
                  | Raises e \<Rightarrow> Raises e
                  | Never_returns \<Rightarrow> Never_returns))))"
  by (simp add: try_replay[OF assms] run_agent_outcome
      split: option.splits sum.splits outcome.splits)

lemma try_outcome_fresh:
  assumes "steps_file w = None"
  shows "snd (fetch_hmm_try env b w) =
     (case new_agent env (fresh_agent env b) of
        Some e \<Rightarrow> Raises e
      | None \<Rightarrow>
         (case snd (agent_run env (fresh_agent env b) hooked_run) of
            Returns result \<Rightarrow>
              if truthy (final_result result)
              then (case open_write env of
                      Some e \<Rightarrow> Raises e
                    | None \<Rightarrow>
                       (case snd (json_dump env (save_actions_loop [] (model_actions result))) of
                          Some e \<Rightarrow> Raises e
                        | None \<Rightarrow> Returns (final_result result)))
              else Returns (Some ''No results found'')
          | Raises e \<Rightarrow> Raises e
          | Never_returns \<Rightarrow> Never_returns))"
  by (simp add: try_fresh[OF assms] run_agent_outcome save_actions_outcome
      split: option.splits outcome.splits)

lemma try_events_replay:
  assumes "steps_file w = Some contents"
  shows "events (fst (fetch_hmm_try env b w)) =
     events w @
     (case open_read env of
        Some e \<Rightarrow> []
      | None \<Rightarrow>
         (case json_load env contents of
            Inl e \<Rightarrow> []
          | Inr loaded \<Rightarrow> run_effects env (replay_agent env b loaded)))"
  by (simp add: try_replay[OF assms] run_agent_effects split: option.splits sum.splits)

lemma try_events_fresh:
  assumes "steps_file w = None"
  shows "events (fst (fetch_hmm_try env b w)) =
     events w @ run_effects env (fresh_agent env b) @ save_effects env (fresh_agent env b)"
  by (simp add: try_fresh[OF assms] run_agent_effects run_agent_outcome save_effects_def
        save_actions_effects
      split: option.splits outcome.splits)

lemma try_file_replay:
  assumes "steps_file w = Some contents"
  shows "steps_file (fst (fetch_hmm_try env b w)) = Some contents"
  by (simp add: try_replay[OF assms] run_agent_file assms split: option.splits sum.splits)

lemma try_file_fresh:
  assumes "steps_file w = None" "reported_answer env (fresh_agent env b) = None"
  shows "steps_file (fst (fetch_hmm_try env b w)) = None"
  using assms(2)
  by (auto simp: try_fresh[OF assms(1)] run_agent_file run_agent_outcome assms(1)
        reported_answer_def truthy_def
      split: option.splits outcome.splits if_splits)

lemma try_file_fresh_saved:
  assumes "steps_file w = None" "new_agent env (fresh_agent env b) = None"
    "snd (agent_run env (fresh_agent env b) hooked_run) = Returns result"
    "truthy (final_result result)" "open_write env = None"
  shows "steps_file (fst (fetch_hmm_try env b w)) =
     Some (fst (json_dump env (save_actions_loop [] (model_actions result))))"
  using assms(2-5)
  by (simp add: try_fresh[OF assms(1)] run_agent_outcome save_actions_file)

subsection \<open>The \<^verbatim>\<open>except\<close> clause\<close>

lemma fetch_hmm_outcome:
  "snd (fetch_hmm env b w) =
     (case snd (fetch_hmm_try env b w) of
        Raises (Exception msg) \<Rightarrow> Returns None
      | r \<Rightarrow> r)"
  by (simp add: fetch_hmm_def split: prod.splits outcome.splits exn.splits)

lemma fetch_hmm_file:
  "steps_file (fst (fetch_hmm env b w)) = steps_file (fst (fetch_hmm_try env b w))"
  by (simp add: fetch_hmm_def print_def split: prod.splits outcome.splits exn.splits)

lemma fetch_hmm_events:
  "events (fst (fetch_hmm env b w)) =
     events (fst (fetch_hmm_try env b w)) @ cleanup_print (snd (fetch_hmm_try env b w))"
  by (simp add: fetch_hmm_def print_def cleanup_print_def
      split: prod.splits outcome.splits exn.splits)

lemma effects_fresh:
  assumes "steps_file w = None"
  shows "effects w (fst (fetch_hmm env b w)) =
     run_effects env (fresh_agent env b) @ save_effects env (fresh_agent env b)
       @ cleanup_print (snd (fetch_hmm_try env b w))"
  by (rule effects_append) (simp add: fetch_hmm_events try_events_fresh[OF assms])

lemma effects_replay:
  assumes "steps_file w = Some contents"
  shows "effects w (fst (fetch_hmm env b w)) =
     (case open_read env of
        Some e \<Rightarrow> []
      | None \<Rightarrow>
         (case json_load env contents of
            Inl e \<Rightarrow> []
          | Inr loaded \<Rightarrow> run_effects env (replay_agent env b loaded)))
       @ cleanup_print (snd (fetch_hmm_try env b w))"
  by (rule effects_append) (simp add: fetch_hmm_events try_events_replay[OF assms])

lemma built_agents_append:
  "built_agents env (xs @ ys) = built_agents env xs @ built_agents env ys"
  by (simp add: built_agents_def agent_inits_append)

lemma built_agents_parts:
  "built_agents env (run_effects env agent) = (if new_agent env agent = None then [agent] else [])"
  "built_agents env (save_effects env agent) = []"
  "built_agents env (cleanup_print r) = []"
  by (simp_all add: built_agents_def run_effects_calls save_effects_calls cleanup_print_calls)

lemma save_effects_unwritable:
  assumes "open_write env \<noteq> None"
  shows "save_effects env agent = []"
proof -
  from assms obtain e where e: "open_write env = Some e" by blast
  show ?thesis
    by (simp add: save_effects_def e split: option.splits outcome.splits)
qed

lemma try_file_fresh_unwritable:
  assumes "steps_file w = None" "open_write env \<noteq> None"
  shows "steps_file (fst (fetch_hmm_try env b w)) = None"
proof -
  from assms(2) obtain e where e: "open_write env = Some e" by blast
  show ?thesis
    by (simp add: try_fresh[OF assms(1)] run_agent_file save_actions_file assms(1) e
        split: outcome.splits)
qed

subsection \<open>Strings\<close>

lemma sublist_appendR: "sublist xs zs \<Longrightarrow> sublist xs (ys @ zs)"
  by (simp add: sublist_append)

lemma sublist_appendL: "sublist xs ys \<Longrightarrow> sublist xs (ys @ zs)"
  by (simp add: sublist_append)

lemma sublist_map_preimage:
  assumes "sublist zs (map f ys)"
  shows "\<exists>s. sublist s ys \<and> map f s = zs"
proof -
  from assms obtain ps ss where "map f ys = ps @ zs @ ss"
    by (auto simp: sublist_def)
  then obtain a r where 1: "ys = a @ r" and 2: "map f r = zs @ ss"
    by (metis map_eq_append_conv)
  from 2 obtain s c where 3: "r = s @ c" and 4: "map f s = zs"
    by (metis map_eq_append_conv)
  from 1 3 have "sublist s ys" by (simp add: sublist_def) blast
  with 4 show ?thesis by blast
qed

text \<open>
  The test on lowered strings is containment of some spelling of the needle: a contiguous
  part of the haystack that differs from the needle in case only.
\<close>

lemma contains_ignoring_case_iff:
  "contains_ignoring_case needle haystack \<longleftrightarrow>
     (\<exists>s. sublist s haystack \<and> lower s = lower needle)"
  unfolding contains_ignoring_case_def lower_def
  by (metis sublist_map_preimage map_mono_sublist)

lemma lower_error_indicators: "map lower error_indicators = error_indicators"
  by (simp add: error_indicators_def lower_def lower_char_def)

lemma any_indicator:
  "list_ex (\<lambda>err. sublist err (lower current_url)) error_indicators \<longleftrightarrow>
     (\<exists>err \<in> set error_indicators. contains_ignoring_case err current_url)"
proof -
  have "\<forall>err \<in> set error_indicators. lower err = err"
    using lower_error_indicators by (simp add: error_indicators_def)
  then show ?thesis
    by (simp add: list_ex_iff contains_ignoring_case_def)
qed

section \<open>The claims\<close>

subsection \<open>The trace serializer\<close>

text \<open>
  Claim C10. For every input list, the list that \<^verbatim>\<open>save_actions\<close> writes is an
  order-preserving reduction of the input: it is the concatenation, in input order, of what
  each record contributes; a record contributes at most one entry, namely its first item
  whose key is not \<^verbatim>\<open>'interacted_element'\<close>, with the parameters unchanged; a record all of
  whose keys are \<^verbatim>\<open>'interacted_element'\<close>, and so the empty record too, contributes nothing;
  hence the output is never longer than the input and is strictly shorter once such a
  record occurs. The list handed to \<^verbatim>\<open>json.dump\<close> is that list.
\<close>

theorem save_actions_order_preserving_reduction:
  fixes stored :: "'p action list"
  shows "save_actions_loop [] stored = concat (map contribution stored)
   \<and> (\<forall>action :: 'p action. length (contribution action) \<le> 1)
   \<and> (\<forall>action :: 'p action. (\<forall>item \<in> set action. fst item = ''interacted_element'') \<longrightarrow>
         contribution action = [])
   \<and> length (save_actions_loop [] stored) \<le> length stored
   \<and> length (save_actions_loop [] ([(''interacted_element'', p)] # stored))
        < length ([(''interacted_element'', p)] # stored)
   \<and> length (save_actions_loop [] ([] # stored)) < length ([] # stored)
   \<and> events (fst (save_actions env stored w)) =
        events w @
          (if open_write env = None then [JsonDump (concat (map contribution stored))] else [])"
proof -
  have a: "save_actions_loop [] stored = concat (map contribution stored)"
    by (simp add: save_actions_loop_concat)
  have b: "\<forall>action :: 'p action. length (contribution action) \<le> 1"
    by (simp add: contribution_def split: option.splits)
  have c: "\<forall>action :: 'p action. (\<forall>item \<in> set action. fst item = ''interacted_element'') \<longrightarrow>
      contribution action = []"
    by (auto simp: contribution_def split: option.splits dest: find_Some_mem)
  have d: "length (concat (map contribution xs)) \<le> length xs" for xs :: "'p action list"
    by (simp add: length_concat_contribution)
  have e: "events (fst (save_actions env stored w)) =
      events w @
        (if open_write env = None then [JsonDump (concat (map contribution stored))] else [])"
    by (simp add: save_actions_effects a)
  have f: "length (save_actions_loop [] ([(''interacted_element'', p)] # stored))
      < length ([(''interacted_element'', p)] # stored)"
    using d[of stored] by (simp add: save_actions_loop_concat contribution_def)
  have g: "length (save_actions_loop [] ([] # stored)) < length ([] # stored)"
    using d[of stored] by (simp add: save_actions_loop_concat contribution_def)
  show ?thesis using a b c d[of stored] e f g by simp
qed

text \<open>
  The reduction on three records: the second has the auxiliary key first and two action
  keys after it, and only the first of the two is kept.
\<close>

theorem save_actions_order_preserving_reduction_witness:
  "save_actions_loop [] example_actions =
     [[(''go_to_url'', 1)], [(''click_element'', 2)], [(''done'', 4)]]
   \<and> concat (map contribution example_actions) =
     [[(''go_to_url'', 1)], [(''click_element'', 2)], [(''done'', 4)]]
   \<and> contribution [(''interacted_element'', 0 :: nat)] = []
   \<and> events (fst (save_actions (example_env (answered None)) example_actions no_trace)) =
     [JsonDump [[(''go_to_url'', 1)], [(''click_element'', 2)], [(''done'', 4)]]]"
proof -
  have c: "concat (map contribution example_actions) =
      [[(''go_to_url'', 1)], [(''click_element'', 2)], [(''done'', 4)]]"
    by (simp add: example_actions_def contribution_def)
  have n: "contribution [(''interacted_element'', 0 :: nat)] = []"
    by (simp add: contribution_def)
  have o: "open_write (example_env (answered None)) = None" "events no_trace = []"
    by (simp_all add: example_env_def no_trace_def)
  show ?thesis
    using save_actions_order_preserving_reduction
      [of example_actions 0 "example_env (answered None)" no_trace]
    by (simp add: c n o)
qed

text \<open>
  Claim C1, as amended. For every input list of action records, no emitted record has the
  key \<^verbatim>\<open>'interacted_element'\<close> and every emitted record has exactly one key. The written
  list holds, in input order, one record for each input record that has a key other than
  \<^verbatim>\<open>'interacted_element'\<close>: the first item of that record with such a key, parameters
  unchanged. So when every input record has such a key, the written list is as long as the
  input and its record at each position is that item of the input record at the same
  position. The list so built is the one handed to \<^verbatim>\<open>json.dump\<close>.
\<close>

theorem save_actions_single_key_records:
  "(\<forall>r \<in> set (save_actions_loop [] stored).
      \<exists>k p. r = [(k, p)] \<and> k \<noteq> ''interacted_element'')
   \<and> save_actions_loop [] stored =
        List.map_filter
          (\<lambda>action. map_option (\<lambda>item. [item])
             (find (\<lambda>item. fst item \<noteq> ''interacted_element'') action)) stored
   \<and> length (save_actions_loop [] stored) = length (filter has_action_key stored)
   \<and> ((\<forall>action \<in> set stored. has_action_key action) \<longrightarrow>
        length (save_actions_loop [] stored) = length stored
        \<and> (\<forall>i < length stored.
              \<exists>item. find (\<lambda>item. fst item \<noteq> ''interacted_element'') (stored ! i) = Some item
                \<and> save_actions_loop [] stored ! i = [item]))
   \<and> events (fst (save_actions env stored w)) =
        events w @ (if open_write env = None then [JsonDump (save_actions_loop [] stored)] else [])"
proof -
  have a: "\<forall>r \<in> set (save_actions_loop [] stored).
      \<exists>k p. r = [(k, p)] \<and> k \<noteq> ''interacted_element''"
    using contribution_shape by (fastforce simp: save_actions_loop_concat)
  have m: "save_actions_loop [] stored =
      List.map_filter
        (\<lambda>action. map_option (\<lambda>item. [item])
           (find (\<lambda>item. fst item \<noteq> ''interacted_element'') action)) stored"
    using save_actions_loop_map_filter[of "[]" stored] by simp
  have b: "length (save_actions_loop [] stored) = length (filter has_action_key stored)"
    by (simp add: save_actions_loop_concat length_concat_contribution)
  have c: "(\<forall>action \<in> set stored. has_action_key action) \<longrightarrow>
      length (save_actions_loop [] stored) = length stored
      \<and> (\<forall>i < length stored.
            \<exists>item. find (\<lambda>item. fst item \<noteq> ''interacted_element'') (stored ! i) = Some item
              \<and> save_actions_loop [] stored ! i = [item])"
    using save_actions_loop_nth[of stored _ "[]"] by (simp add: b)
  show ?thesis using a m b c save_actions_effects[of env stored w] by blast
qed

text \<open>
  Three records that all have an action key give three records of one key each; the second
  has the auxiliary key first and keeps the first of its two action keys.
\<close>

theorem save_actions_single_key_records_witness:
  "list_all has_action_key example_actions
   \<and> length (save_actions_loop [] example_actions) = length example_actions
   \<and> find (\<lambda>item. fst item \<noteq> ''interacted_element'') (example_actions ! 1)
       = Some (''click_element'', 2)
   \<and> save_actions_loop [] example_actions =
       [[(''go_to_url'', 1)], [(''click_element'', 2)], [(''done'', 4)]]"
proof -
  have h: "\<forall>action \<in> set example_actions. has_action_key action"
    by (simp add: example_actions_def has_action_key_def)
  have l: "length (save_actions_loop [] example_actions) = length example_actions"
    using h save_actions_single_key_records
      [of example_actions "example_env (answered None)" no_trace]
    by blast
  have e: "save_actions_loop [] example_actions =
      [[(''go_to_url'', 1)], [(''click_element'', 2)], [(''done'', 4)]]"
    by (simp add: example_actions_def)
  have f: "find (\<lambda>item. fst item \<noteq> ''interacted_element'') (example_actions ! 1)
      = Some (''click_element'', 2)"
    by (simp add: example_actions_def)
  show ?thesis
    using h l e f by (simp add: list_all_iff)
qed

text \<open>
  Claim C1 as stated fails: for the input of one record whose only key is
  \<^verbatim>\<open>'interacted_element'\<close>, the written list is empty, so no key is kept for that record.
\<close>

theorem save_actions_drops_record_counterexample:
  "length [[(''interacted_element'', 0 :: nat)]] = 1
   \<and> save_actions_loop [] [[(''interacted_element'', 0 :: nat)]] = []
   \<and> events (fst (save_actions (example_env (answered None))
                    [[(''interacted_element'', 0)]] no_trace)) = [JsonDump []]"
  by (simp add: save_actions_def example_defs)

subsection \<open>The retry hook\<close>

text \<open>
  Claim C7. The failure substrings are \<^verbatim>\<open>error\<close>, \<^verbatim>\<open>failed\<close>, \<^verbatim>\<open>invalid\<close>, \<^verbatim>\<open>incorrect\<close>
  and \<^verbatim>\<open>unable\<close>. In an invocation of the retry hook whose current page has the address
  \<open>current_url\<close>: if the address contains one of them, case ignored, the hook hands exactly
  one instruction to \<^verbatim>\<open>add_new_task\<close> (and prints its notice); if it contains none, the hook
  changes nothing.
\<close>

theorem retry_hook_enqueues_once:
  "error_indicators = [''error'', ''failed'', ''invalid'', ''incorrect'', ''unable'']
   \<and> (get_current_page agent = Inr current_url
        \<and> (\<exists>err \<in> set error_indicators. contains_ignoring_case err current_url) \<longrightarrow>
      retry_hook agent =
        (agent\<lparr>printed := printed agent @ [''Detected failure condition, will retry...''],
               add_new_task := add_new_task agent @ [''Retry to complete the original task'']\<rparr>,
         Returns ()))
   \<and> (get_current_page agent = Inr current_url
        \<and> \<not> (\<exists>err \<in> set error_indicators. contains_ignoring_case err current_url) \<longrightarrow>
      retry_hook agent = (agent, Returns ()))"
  by (simp add: retry_hook_def any_indicator) (simp add: error_indicators_def)

text \<open>An address with \<^verbatim>\<open>Error\<close> in it, and the address of the carrier's tracking page.\<close>

theorem retry_hook_enqueues_once_witness:
  "contains_ignoring_case ''error'' ''http://www.seacargotracking.net/Error.aspx?id=1''
   \<and> add_new_task (fst (retry_hook
                          (example_page ''http://www.seacargotracking.net/Error.aspx?id=1'')))
       = [''Retry to complete the original task'']
   \<and> \<not> (\<exists>err \<in> set error_indicators.
            contains_ignoring_case err ''http://www.hmm21.com/e-service/TrackNTrace.do'')
   \<and> retry_hook (example_page ''http://www.hmm21.com/e-service/TrackNTrace.do'')
       = (example_page ''http://www.hmm21.com/e-service/TrackNTrace.do'', Returns ())"
proof -
  have y: "contains_ignoring_case ''error'' ''http://www.seacargotracking.net/Error.aspx?id=1''"
    by (simp add: contains_ignoring_case_def lower_def lower_char_def sublist_code)
  have n: "\<not> (\<exists>err \<in> set error_indicators.
      contains_ignoring_case err ''http://www.hmm21.com/e-service/TrackNTrace.do'')"
    by (simp add: error_indicators_def contains_ignoring_case_def lower_def lower_char_def
          sublist_code)
  have m: "''error'' \<in> set error_indicators"
    by (simp add: error_indicators_def)
  have g: "get_current_page (example_page u) = Inr u" "add_new_task (example_page u) = []" for u
    by (simp_all add: example_page_def)
  from y m have e: "\<exists>err \<in> set error_indicators.
      contains_ignoring_case err ''http://www.seacargotracking.net/Error.aspx?id=1''"
    by blast
  show ?thesis
    using retry_hook_enqueues_once
        [of "example_page ''http://www.seacargotracking.net/Error.aspx?id=1''"
            "''http://www.seacargotracking.net/Error.aspx?id=1''"]
      retry_hook_enqueues_once
        [of "example_page ''http://www.hmm21.com/e-service/TrackNTrace.do''"
            "''http://www.hmm21.com/e-service/TrackNTrace.do''"]
      y n e g
    by simp
qed

subsection \<open>The pacing hook\<close>



subsection \<open>The task dispatcher: which agent is built and how it is run\<close>

text \<open>
  Claim C4, as amended. When the trace file does not exist, the one call of the
  \<^verbatim>\<open>Agent\<close> constructor that \<^verbatim>\<open>fetch_hmm\<close> makes is handed the fresh-discovery string as its
  task, that string contains the booking identifier and the address
  \<^verbatim>\<open>http://www.seacargotracking.net/\<close>, and when the constructor returns, the agent so built
  is the only one and the one that is run. When the trace file exists, can be opened and
  parses, and the constructor returns, the one agent that is built and run is the replay
  agent, whose initial actions are exactly what \<^verbatim>\<open>json.load\<close> returned.
\<close>

theorem fetch_hmm_agent_built:
  "(steps_file w = None \<longrightarrow>
      agent_inits (effects w (fst (fetch_hmm env b w))) = [fresh_agent env b]
      \<and> task (fresh_agent env b) = fresh_task b
      \<and> sublist b (fresh_task b)
      \<and> sublist ''http://www.seacargotracking.net/'' (fresh_task b)
      \<and> (new_agent env (fresh_agent env b) = None \<longrightarrow>
            built_agents env (effects w (fst (fetch_hmm env b w))) = [fresh_agent env b]
            \<and> run_calls (effects w (fst (fetch_hmm env b w)))
                = [(fresh_agent env b, hooked_run)]))
   \<and> (steps_file w = Some contents \<and> open_read env = None
        \<and> json_load env contents = Inr loaded
        \<and> new_agent env (replay_agent env b loaded) = None \<longrightarrow>
      built_agents env (effects w (fst (fetch_hmm env b w))) = [replay_agent env b loaded]
      \<and> run_calls (effects w (fst (fetch_hmm env b w)))
          = [(replay_agent env b loaded, hooked_run)]
      \<and> task (replay_agent env b loaded) = replay_task b
      \<and> message_context (replay_agent env b loaded) = Some (replay_message_context b)
      \<and> initial_actions (replay_agent env b loaded) = Some loaded)"
proof (intro conjI impI)
  assume n: "steps_file w = None"
  show "agent_inits (effects w (fst (fetch_hmm env b w))) = [fresh_agent env b]"
    by (simp add: effects_fresh[OF n] agent_inits_append run_effects_calls save_effects_calls
          cleanup_print_calls)
  show "task (fresh_agent env b) = fresh_task b"
    by (simp add: fresh_agent_def)
  show "sublist b (fresh_task b)"
    unfolding fresh_task_def
    by (rule sublist_appendR, rule sublist_appendR, rule sublist_appendR,
        rule sublist_append_rightI)
  have "''            First, navigate to exactly website: http://www.seacargotracking.net/\<newline>''
      = ''            First, navigate to exactly website: ''
        @ ''http://www.seacargotracking.net/'' @ ''\<newline>''"
    by simp
  then have u: "sublist ''http://www.seacargotracking.net/''
      ''            First, navigate to exactly website: http://www.seacargotracking.net/\<newline>''"
    unfolding sublist_def by blast
  show "sublist ''http://www.seacargotracking.net/'' (fresh_task b)"
    unfolding fresh_task_def
    by (rule sublist_appendR, rule sublist_appendR, rule sublist_appendR, rule sublist_appendR,
        rule sublist_appendR, rule sublist_appendL, rule u)
  {
    assume c: "new_agent env (fresh_agent env b) = None"
    show "built_agents env (effects w (fst (fetch_hmm env b w))) = [fresh_agent env b]"
      using c by (simp add: effects_fresh[OF n] built_agents_append built_agents_parts)
    show "run_calls (effects w (fst (fetch_hmm env b w))) = [(fresh_agent env b, hooked_run)]"
      using c
      by (simp add: effects_fresh[OF n] run_calls_append run_effects_calls save_effects_calls
            cleanup_print_calls)
  }
next
  assume a: "steps_file w = Some contents \<and> open_read env = None
      \<and> json_load env contents = Inr loaded
      \<and> new_agent env (replay_agent env b loaded) = None"
  then have s: "steps_file w = Some contents" by simp
  show "built_agents env (effects w (fst (fetch_hmm env b w))) = [replay_agent env b loaded]"
    using a
    by (simp add: effects_replay[OF s] built_agents_append built_agents_parts)
  show "run_calls (effects w (fst (fetch_hmm env b w))) = [(replay_agent env b loaded, hooked_run)]"
    using a
    by (simp add: effects_replay[OF s] run_calls_append run_effects_calls cleanup_print_calls)
  show "task (replay_agent env b loaded) = replay_task b"
    by (simp add: replay_agent_def)
  show "message_context (replay_agent env b loaded) = Some (replay_message_context b)"
    by (simp add: replay_agent_def)
  show "initial_actions (replay_agent env b loaded) = Some loaded"
    by (simp add: replay_agent_def)
qed

text \<open>
  The booking identifier of the entry point, once without a trace file and once with the
  trace file that holds the list of one \<^verbatim>\<open>done\<close> record, in an environment whose constructor
  returns.
\<close>

theorem fetch_hmm_agent_built_witness:
  "steps_file no_trace = None
   \<and> new_agent (example_env (answered None))
        (fresh_agent (example_env (answered None)) ''SINI25432400'') = None
   \<and> built_agents (example_env (answered None)) (effects no_trace
        (fst (fetch_hmm (example_env (answered None)) ''SINI25432400'' no_trace)))
       = [fresh_agent (example_env (answered None)) ''SINI25432400'']
   \<and> sublist ''SINI25432400'' (fresh_task ''SINI25432400'')
   \<and> steps_file (trace done_text) = Some done_text
   \<and> json_load (example_env (answered None)) done_text = Inr [[(''done'', 1)]]
   \<and> built_agents (example_env (answered None)) (effects (trace done_text)
        (fst (fetch_hmm (example_env (answered None)) ''SINI25432400'' (trace done_text))))
       = [replay_agent (example_env (answered None)) ''SINI25432400'' [[(''done'', 1)]]]
   \<and> run_calls (effects (trace done_text)
        (fst (fetch_hmm (example_env (answered None)) ''SINI25432400'' (trace done_text))))
       = [(replay_agent (example_env (answered None)) ''SINI25432400'' [[(''done'', 1)]],
           hooked_run)]
   \<and> initial_actions (replay_agent (example_env (answered None)) ''SINI25432400''
        [[(''done'', 1)]]) = Some [[(''done'', 1)]]"
proof -
  have h: "steps_file no_trace = None" "steps_file (trace done_text) = Some done_text"
    "open_read (example_env (answered None)) = None"
    "json_load (example_env (answered None)) done_text = Inr [[(''done'', 1)]]"
    "new_agent (example_env (answered None)) a = None" for a
    by (simp_all add: no_trace_def trace_def example_env_def example_json_load_def done_text_def)
  show ?thesis
    using h
      fetch_hmm_agent_built
        [of no_trace "example_env (answered None)" "''SINI25432400''"]
      fetch_hmm_agent_built
        [of "trace done_text" "example_env (answered None)" "''SINI25432400''"
            done_text "[[(''done'', 1)]]"]
    by simp
qed

text \<open>
  Claim C4 as stated fails on a trace file that exists and does not parse: \<^verbatim>\<open>json.load\<close>
  raises, the exception is printed, and no agent is built. It fails as well on a trace
  file that parses when the constructor refuses what it is handed: the call is made, no
  agent exists after it, nothing is run, and the value is \<^verbatim>\<open>None\<close>.
\<close>

theorem fetch_hmm_unparsable_trace_counterexample:
  "steps_file (trace ''not json'') = Some ''not json''
   \<and> fetch_hmm (example_env (answered None)) ''SINI25432400'' (trace ''not json'') =
       (\<lparr>steps_file = Some ''not json'',
         events = [Print ''Error during cleanup: Expecting value: line 1 column 1 (char 0)'']\<rparr>,
        Returns None)
   \<and> agent_inits (effects (trace ''not json'')
        (fst (fetch_hmm (example_env (answered None)) ''SINI25432400'' (trace ''not json''))))
       = []
   \<and> steps_file (trace done_text) = Some done_text
   \<and> json_load refusing_env done_text = Inr [[(''done'', 1)]]
   \<and> built_agents refusing_env (effects (trace done_text)
        (fst (fetch_hmm refusing_env ''SINI25432400'' (trace done_text)))) = []
   \<and> run_calls (effects (trace done_text)
        (fst (fetch_hmm refusing_env ''SINI25432400'' (trace done_text)))) = []
   \<and> snd (fetch_hmm refusing_env ''SINI25432400'' (trace done_text)) = Returns None"
proof -
  have 1: "fetch_hmm (example_env (answered None)) ''SINI25432400'' (trace ''not json'') =
       (\<lparr>steps_file = Some ''not json'',
         events = [Print ''Error during cleanup: Expecting value: line 1 column 1 (char 0)'']\<rparr>,
        Returns None)"
    by (simp add: fetch_hmm_def fetch_hmm_try_def print_def example_defs)
  have t: "steps_file (trace c) = Some c" for c
    by (simp add: trace_def)
  have r: "open_read refusing_env = None"
    "json_load refusing_env done_text = Inr [[(''done'', 1)]]"
    "new_agent refusing_env a = Some (Exception ''1 validation error for ActionModel'')" for a
    by (simp_all add: refusing_env_def example_json_load_def done_text_def)
  have 2: "built_agents refusing_env (effects (trace done_text)
        (fst (fetch_hmm refusing_env ''SINI25432400'' (trace done_text)))) = []"
    by (simp add: effects_replay[OF t] r built_agents_append built_agents_parts)
  have 3: "run_calls (effects (trace done_text)
        (fst (fetch_hmm refusing_env ''SINI25432400'' (trace done_text)))) = []"
    by (simp add: effects_replay[OF t] r run_calls_append run_effects_calls cleanup_print_calls)
  have 4: "snd (fetch_hmm refusing_env ''SINI25432400'' (trace done_text)) = Returns None"
    by (simp add: fetch_hmm_outcome try_outcome_replay[OF t] r)
  show ?thesis
    using 1 2 3 4 t r by (simp add: effects_def trace_def)
qed

text \<open>
  Claim C9. On both paths \<^verbatim>\<open>fetch_hmm\<close> calls \<^verbatim>\<open>agent.run\<close> at most once and every such call
  carries \<^verbatim>\<open>max_steps=20\<close>: on the fresh path the call is made for the fresh agent, on the
  replay path for the replay agent, once the agent is constructed. Nothing else bounds the
  run: \<^verbatim>\<open>fetch_hmm\<close> fails to return exactly when a run that it started never returns.
  That the framework stops after \<^verbatim>\<open>max_steps\<close> steps is the framework's contract and is not
  part of the script.
\<close>

theorem agent_run_capped_at_20:
  "(\<forall>call \<in> set (run_calls (effects w (fst (fetch_hmm env b w)))). max_steps (snd call) = 20)
   \<and> length (run_calls (effects w (fst (fetch_hmm env b w)))) \<le> 1
   \<and> (steps_file w = None \<and> new_agent env (fresh_agent env b) = None \<longrightarrow>
        run_calls (effects w (fst (fetch_hmm env b w))) = [(fresh_agent env b, hooked_run)])
   \<and> (steps_file w = Some contents \<and> open_read env = None
        \<and> json_load env contents = Inr loaded
        \<and> new_agent env (replay_agent env b loaded) = None \<longrightarrow>
        run_calls (effects w (fst (fetch_hmm env b w))) = [(replay_agent env b loaded, hooked_run)])
   \<and> (snd (fetch_hmm env b w) = Never_returns \<longleftrightarrow>
        (\<exists>call \<in> set (run_calls (effects w (fst (fetch_hmm env b w)))).
           snd (agent_run env (fst call) (snd call)) = Never_returns))"
proof (cases "steps_file w")
  case None
  have calls: "run_calls (effects w (fst (fetch_hmm env b w))) =
      (if new_agent env (fresh_agent env b) = None then [(fresh_agent env b, hooked_run)] else [])"
    by (simp add: effects_fresh[OF None] run_calls_append run_effects_calls save_effects_calls
          cleanup_print_calls)
  have never: "snd (fetch_hmm env b w) = Never_returns \<longleftrightarrow>
      new_agent env (fresh_agent env b) = None
      \<and> snd (agent_run env (fresh_agent env b) hooked_run) = Never_returns"
    by (simp add: fetch_hmm_outcome try_outcome_fresh[OF None]
          split: option.splits outcome.splits exn.splits)
  show ?thesis
    by (simp add: calls never None hooked_run_def)
next
  case (Some contents')
  have calls: "run_calls (effects w (fst (fetch_hmm env b w))) =
      (case open_read env of
         Some e \<Rightarrow> []
       | None \<Rightarrow>
          (case json_load env contents' of
             Inl e \<Rightarrow> []
           | Inr loaded \<Rightarrow>
               if new_agent env (replay_agent env b loaded) = None
               then [(replay_agent env b loaded, hooked_run)] else []))"
    by (simp add: effects_replay[OF Some] run_calls_append run_effects_calls cleanup_print_calls
          split: option.splits sum.splits)
  have never: "snd (fetch_hmm env b w) = Never_returns \<longleftrightarrow>
      (case open_read env of
         Some e \<Rightarrow> False
       | None \<Rightarrow>
          (case json_load env contents' of
             Inl e \<Rightarrow> False
           | Inr loaded \<Rightarrow>
               new_agent env (replay_agent env b loaded) = None
               \<and> snd (agent_run env (replay_agent env b loaded) hooked_run) = Never_returns))"
    by (simp add: fetch_hmm_outcome try_outcome_replay[OF Some]
          split: option.splits sum.splits outcome.splits exn.splits)
  show ?thesis
    by (simp add: calls never Some hooked_run_def split: option.splits sum.splits)
qed

text \<open>
  A framework whose run never returns: on both paths the one call carries the cap of 20
  steps and \<^verbatim>\<open>fetch_hmm\<close> does not return.
\<close>

theorem agent_run_capped_at_20_witness:
  "steps_file no_trace = None
   \<and> new_agent (example_env ([], Never_returns))
        (fresh_agent (example_env ([], Never_returns)) ''SINI25432400'') = None
   \<and> map (max_steps \<circ> snd) (run_calls (effects no_trace
        (fst (fetch_hmm (example_env ([], Never_returns)) ''SINI25432400'' no_trace)))) = [20]
   \<and> snd (fetch_hmm (example_env ([], Never_returns)) ''SINI25432400'' no_trace) = Never_returns
   \<and> map (max_steps \<circ> snd) (run_calls (effects (trace ''[]'')
        (fst (fetch_hmm (example_env ([], Never_returns)) ''SINI25432400'' (trace ''[]''))))) = [20]
   \<and> snd (fetch_hmm (example_env ([], Never_returns)) ''SINI25432400'' (trace ''[]''))
       = Never_returns"
proof -
  have h: "steps_file no_trace = None" "steps_file (trace ''[]'') = Some ''[]''"
    "open_read (example_env ([], Never_returns)) = None"
    "json_load (example_env ([], Never_returns)) ''[]'' = Inr []"
    "new_agent (example_env ([], Never_returns)) a = None"
    "snd (agent_run (example_env ([], Never_returns)) a args) = Never_returns" for a args
    by (simp_all add: no_trace_def trace_def example_env_def example_json_load_def)
  show ?thesis
    using h
      agent_run_capped_at_20
        [of no_trace "example_env ([], Never_returns)" "''SINI25432400''"]
      agent_run_capped_at_20
        [of "trace ''[]''" "example_env ([], Never_returns)" "''SINI25432400''" "''[]''" "[]"]
    by (simp add: hooked_run_def)
qed

subsection \<open>The task dispatcher: what it returns and what it writes\<close>

text \<open>
  Claim C5, as amended. The trace file is written only on the fresh path and only when the
  agent reports a final answer. A run that finds the trace file leaves its text as it was
  and calls \<^verbatim>\<open>json.dump\<close> not at all. A run that finds no trace file and whose agent reports
  no final answer (the constructor or the run raises, the run never returns, or
  \<^verbatim>\<open>final_result()\<close> is empty) leaves the file absent and calls \<^verbatim>\<open>json.dump\<close> not at all.
  When the fresh run does report a final answer, the file stays absent if it cannot be
  opened for writing, and otherwise holds what \<^verbatim>\<open>json.dump\<close> wrote of the reduced action
  list, which is a partial text when \<^verbatim>\<open>json.dump\<close> raises.
\<close>

theorem trace_written_only_after_fresh_answer:
  "(steps_file w \<noteq> None \<longrightarrow>
      steps_file (fst (fetch_hmm env b w)) = steps_file w
      \<and> dumps (effects w (fst (fetch_hmm env b w))) = [])
   \<and> (steps_file w = None \<and> reported_answer env (fresh_agent env b) = None \<longrightarrow>
      steps_file (fst (fetch_hmm env b w)) = steps_file w
      \<and> dumps (effects w (fst (fetch_hmm env b w))) = [])
   \<and> (steps_file w = None \<and> open_write env \<noteq> None \<longrightarrow>
      steps_file (fst (fetch_hmm env b w)) = steps_file w
      \<and> dumps (effects w (fst (fetch_hmm env b w))) = [])
   \<and> (steps_file w = None \<and> new_agent env (fresh_agent env b) = None
        \<and> snd (agent_run env (fresh_agent env b) hooked_run) = Returns result
        \<and> truthy (final_result result) \<and> open_write env = None \<longrightarrow>
      steps_file (fst (fetch_hmm env b w)) =
        Some (fst (json_dump env (save_actions_loop [] (model_actions result))))
      \<and> dumps (effects w (fst (fetch_hmm env b w))) =
        [save_actions_loop [] (model_actions result)])"
proof (intro conjI impI)
  assume "steps_file w \<noteq> None"
  then obtain contents where t: "steps_file w = Some contents" by blast
  show "steps_file (fst (fetch_hmm env b w)) = steps_file w"
    by (simp add: fetch_hmm_file try_file_replay[OF t] t)
  show "dumps (effects w (fst (fetch_hmm env b w))) = []"
    by (simp add: effects_replay[OF t] dumps_append cleanup_print_calls run_effects_calls
          split: option.splits sum.splits)
next
  assume a: "steps_file w = None \<and> reported_answer env (fresh_agent env b) = None"
  show "steps_file (fst (fetch_hmm env b w)) = steps_file w"
    using a by (simp add: fetch_hmm_file try_file_fresh)
  show "dumps (effects w (fst (fetch_hmm env b w))) = []"
    using a
    by (simp add: effects_fresh dumps_append cleanup_print_calls run_effects_calls
          save_effects_no_answer)
next
  assume a: "steps_file w = None \<and> open_write env \<noteq> None"
  show "steps_file (fst (fetch_hmm env b w)) = steps_file w"
    using a by (simp add: fetch_hmm_file try_file_fresh_unwritable)
  show "dumps (effects w (fst (fetch_hmm env b w))) = []"
    using a
    by (simp add: effects_fresh dumps_append cleanup_print_calls run_effects_calls
          save_effects_unwritable)
next
  assume a: "steps_file w = None \<and> new_agent env (fresh_agent env b) = None
      \<and> snd (agent_run env (fresh_agent env b) hooked_run) = Returns result
      \<and> truthy (final_result result) \<and> open_write env = None"
  show "steps_file (fst (fetch_hmm env b w)) =
      Some (fst (json_dump env (save_actions_loop [] (model_actions result))))"
    using a by (simp add: fetch_hmm_file try_file_fresh_saved)
  show "dumps (effects w (fst (fetch_hmm env b w))) =
      [save_actions_loop [] (model_actions result)]"
    using a
    by (simp add: effects_fresh dumps_append cleanup_print_calls run_effects_calls
          save_effects_def)
qed

text \<open>
  A replay run that answers, a fresh run that does not, and a fresh run that does: only the
  last one touches the file.
\<close>

theorem trace_written_only_after_fresh_answer_witness:
  "steps_file (trace done_text) \<noteq> None
   \<and> steps_file (fst (fetch_hmm (example_env (answered (Some example_answer))) ''SINI25432400''
        (trace done_text))) = Some done_text
   \<and> steps_file no_trace = None
   \<and> reported_answer (example_env (answered None))
        (fresh_agent (example_env (answered None)) ''SINI25432400'') = None
   \<and> steps_file (fst (fetch_hmm (example_env (answered None)) ''SINI25432400'' no_trace)) = None
   \<and> truthy (Some example_answer)
   \<and> steps_file (fst (fetch_hmm (example_env (answered (Some example_answer))) ''SINI25432400''
        no_trace)) = Some done_text"
proof -
  have h: "steps_file (trace done_text) = Some done_text" "steps_file no_trace = None"
    "reported_answer (example_env (answered None)) a = None"
    "new_agent (example_env r) a = None" "open_write (example_env r) = None"
    "snd (agent_run (example_env (answered x)) a args) =
       Returns \<lparr>final_result = x,
                model_actions = [[(''done'', 1), (''interacted_element'', 0)]]\<rparr>"
    "truthy (Some example_answer)"
    "json_dump (example_env r) [[(''done'', 1)]] = (done_text, None)"
    for a r x args
    by (simp_all add: trace_def no_trace_def reported_answer_def example_env_def answered_def
          truthy_def example_answer_def example_json_dump_def)
  show ?thesis
    using h
      trace_written_only_after_fresh_answer
        [of "trace done_text" "example_env (answered (Some example_answer))" "''SINI25432400''"]
      trace_written_only_after_fresh_answer
        [of no_trace "example_env (answered None)" "''SINI25432400''"]
      trace_written_only_after_fresh_answer
        [of no_trace "example_env (answered (Some example_answer))" "''SINI25432400''"
            "\<lparr>final_result = Some example_answer,
              model_actions = [[(''done'', 1), (''interacted_element'', 0)]]\<rparr>"]
    by simp
qed

text \<open>
  Claim C5 as stated fails for a fresh run that raises inside \<^verbatim>\<open>save_actions\<close>: with no trace
  file present the agent answers, \<^verbatim>\<open>json.dump\<close> raises after the opening bracket, the
  exception is swallowed, and the file that did not exist now holds that bracket.
\<close>

theorem fetch_hmm_partial_trace_counterexample:
  "steps_file no_trace = None
   \<and> snd (json_dump (example_env answered_after_click) [[(''click_element'', 2)]])
       = Some (Exception ''Object of type DOMHistoryElement is not JSON serializable'')
   \<and> snd (fetch_hmm (example_env answered_after_click) ''SINI25432400'' no_trace)
       = Returns None
   \<and> steps_file (fst (fetch_hmm (example_env answered_after_click) ''SINI25432400'' no_trace))
       = Some ''[''"
proof -
  have n: "steps_file no_trace = None"
    by (simp add: no_trace_def)
  have h: "new_agent (example_env r) a = None" "open_write (example_env r) = None"
    "snd (agent_run (example_env answered_after_click) a args) =
       Returns \<lparr>final_result = Some example_answer,
                model_actions = [[(''click_element'', 2), (''interacted_element'', 0)]]\<rparr>"
    "truthy (Some example_answer)"
    "json_dump (example_env r) [[(''click_element'', 2)]] =
       (''['', Some (Exception ''Object of type DOMHistoryElement is not JSON serializable''))"
    for a r args
    by (simp_all add: example_env_def answered_after_click_def truthy_def example_answer_def
          example_json_dump_def)
  have o: "snd (fetch_hmm (example_env answered_after_click) ''SINI25432400'' no_trace)
      = Returns None"
    by (simp add: fetch_hmm_outcome try_outcome_fresh[OF n] h)
  have f: "steps_file (fst (fetch_hmm (example_env answered_after_click) ''SINI25432400''
      no_trace)) = Some ''[''"
    using try_file_fresh_saved[OF n h(1) h(3) _ h(2), of "''SINI25432400''"] h(4)
    by (simp add: fetch_hmm_file h)
  show ?thesis
    using n o f h by simp
qed

text \<open>
  Claim C3, as amended. Every exception that is an instance of class \<^verbatim>\<open>Exception\<close> and is
  raised inside the \<^verbatim>\<open>try\<close> block is caught by \<^verbatim>\<open>fetch_hmm\<close>: the line
  \<^verbatim>\<open>Error during cleanup: <message>\<close> is printed after everything else, nothing is raised to
  the caller, and the value is \<^verbatim>\<open>None\<close>. This holds at every place of the sequence that can
  raise: opening the trace file, parsing it, constructing the agent, running it, opening
  the file for writing and serialising into it. An exception that derives from
  \<^verbatim>\<open>BaseException\<close> only is not caught: whatever the \<^verbatim>\<open>try\<close> block raises of that kind,
  \<^verbatim>\<open>fetch_hmm\<close> raises to its caller, printing nothing of its own; so it is when the run of
  the agent raises one, on either path.
\<close>

theorem fetch_hmm_swallows_Exception:
  "(fetch_hmm_try env b w = (w', Raises (Exception msg)) \<longrightarrow>
      fetch_hmm env b w =
        (w'\<lparr>events := events w' @ [Print (''Error during cleanup: '' @ msg)]\<rparr>, Returns None))
   \<and> (\<forall>m. snd (fetch_hmm env b w) \<noteq> Raises (Exception m))
   \<and> (steps_file w = Some contents \<and> open_read env = Some (Exception msg) \<longrightarrow>
        swallowed env b w msg)
   \<and> (steps_file w = Some contents \<and> open_read env = None
        \<and> json_load env contents = Inl (Exception msg) \<longrightarrow>
        swallowed env b w msg)
   \<and> (steps_file w = Some contents \<and> open_read env = None
        \<and> json_load env contents = Inr loaded
        \<and> new_agent env (replay_agent env b loaded) = Some (Exception msg) \<longrightarrow>
        swallowed env b w msg)
   \<and> (steps_file w = Some contents \<and> open_read env = None
        \<and> json_load env contents = Inr loaded
        \<and> new_agent env (replay_agent env b loaded) = None
        \<and> snd (agent_run env (replay_agent env b loaded) hooked_run) = Raises (Exception msg) \<longrightarrow>
        swallowed env b w msg)
   \<and> (steps_file w = None \<and> new_agent env (fresh_agent env b) = Some (Exception msg) \<longrightarrow>
        swallowed env b w msg)
   \<and> (steps_file w = None \<and> new_agent env (fresh_agent env b) = None
        \<and> snd (agent_run env (fresh_agent env b) hooked_run) = Raises (Exception msg) \<longrightarrow>
        swallowed env b w msg)
   \<and> (steps_file w = None \<and> new_agent env (fresh_agent env b) = None
        \<and> snd (agent_run env (fresh_agent env b) hooked_run) = Returns result
        \<and> truthy (final_result result) \<and> open_write env = Some (Exception msg) \<longrightarrow>
        swallowed env b w msg)
   \<and> (steps_file w = None \<and> new_agent env (fresh_agent env b) = None
        \<and> snd (agent_run env (fresh_agent env b) hooked_run) = Returns result
        \<and> truthy (final_result result) \<and> open_write env = None
        \<and> snd (json_dump env (save_actions_loop [] (model_actions result)))
            = Some (Exception msg) \<longrightarrow>
        swallowed env b w msg)
   \<and> (fetch_hmm_try env b w = (w', Raises (BaseException_only msg)) \<longrightarrow>
        fetch_hmm env b w = (w', Raises (BaseException_only msg)))
   \<and> (steps_file w = None \<and> new_agent env (fresh_agent env b) = None
        \<and> snd (agent_run env (fresh_agent env b) hooked_run)
            = Raises (BaseException_only msg) \<longrightarrow>
        snd (fetch_hmm env b w) = Raises (BaseException_only msg))
   \<and> (steps_file w = Some contents \<and> open_read env = None
        \<and> json_load env contents = Inr loaded
        \<and> new_agent env (replay_agent env b loaded) = None
        \<and> snd (agent_run env (replay_agent env b loaded) hooked_run)
            = Raises (BaseException_only msg) \<longrightarrow>
        snd (fetch_hmm env b w) = Raises (BaseException_only msg))"
proof -
  have sw: "snd (fetch_hmm_try env b w) = Raises (Exception msg) \<Longrightarrow> swallowed env b w msg"
    by (simp add: swallowed_def fetch_hmm_outcome fetch_hmm_events cleanup_print_def)
  have 1: "fetch_hmm_try env b w = (w', Raises (Exception msg)) \<longrightarrow>
      fetch_hmm env b w =
        (w'\<lparr>events := events w' @ [Print (''Error during cleanup: '' @ msg)]\<rparr>, Returns None)"
    by (simp add: fetch_hmm_def print_def)
  have 2: "\<forall>m. snd (fetch_hmm env b w) \<noteq> Raises (Exception m)"
    by (simp add: fetch_hmm_outcome split: outcome.splits exn.splits)
  have 3: "steps_file w = Some contents \<and> open_read env = Some (Exception msg) \<longrightarrow>
      swallowed env b w msg"
    by (auto intro!: sw simp: try_outcome_replay)
  have 4: "steps_file w = Some contents \<and> open_read env = None
      \<and> json_load env contents = Inl (Exception msg) \<longrightarrow> swallowed env b w msg"
    by (auto intro!: sw simp: try_outcome_replay)
  have 5: "steps_file w = Some contents \<and> open_read env = None
      \<and> json_load env contents = Inr loaded
      \<and> new_agent env (replay_agent env b loaded) = Some (Exception msg) \<longrightarrow>
      swallowed env b w msg"
    by (auto intro!: sw simp: try_outcome_replay)
  have 6: "steps_file w = Some contents \<and> open_read env = None
      \<and> json_load env contents = Inr loaded
      \<and> new_agent env (replay_agent env b loaded) = None
      \<and> snd (agent_run env (replay_agent env b loaded) hooked_run) = Raises (Exception msg) \<longrightarrow>
      swallowed env b w msg"
    by (auto intro!: sw simp: try_outcome_replay)
  have 7: "steps_file w = None \<and> new_agent env (fresh_agent env b) = Some (Exception msg) \<longrightarrow>
      swallowed env b w msg"
    by (auto intro!: sw simp: try_outcome_fresh)
  have 8: "steps_file w = None \<and> new_agent env (fresh_agent env b) = None
      \<and> snd (agent_run env (fresh_agent env b) hooked_run) = Raises (Exception msg) \<longrightarrow>
      swallowed env b w msg"
    by (auto intro!: sw simp: try_outcome_fresh)
  have 9: "steps_file w = None \<and> new_agent env (fresh_agent env b) = None
      \<and> snd (agent_run env (fresh_agent env b) hooked_run) = Returns result
      \<and> truthy (final_result result) \<and> open_write env = Some (Exception msg) \<longrightarrow>
      swallowed env b w msg"
    by (auto intro!: sw simp: try_outcome_fresh)
  have 10: "steps_file w = None \<and> new_agent env (fresh_agent env b) = None
      \<and> snd (agent_run env (fresh_agent env b) hooked_run) = Returns result
      \<and> truthy (final_result result) \<and> open_write env = None
      \<and> snd (json_dump env (save_actions_loop [] (model_actions result)))
          = Some (Exception msg) \<longrightarrow>
      swallowed env b w msg"
    by (auto intro!: sw simp: try_outcome_fresh)
  have 11: "fetch_hmm_try env b w = (w', Raises (BaseException_only msg)) \<longrightarrow>
      fetch_hmm env b w = (w', Raises (BaseException_only msg))"
    by (simp add: fetch_hmm_def)
  have 12: "steps_file w = None \<and> new_agent env (fresh_agent env b) = None
      \<and> snd (agent_run env (fresh_agent env b) hooked_run)
          = Raises (BaseException_only msg) \<longrightarrow>
      snd (fetch_hmm env b w) = Raises (BaseException_only msg)"
    by (auto simp: fetch_hmm_outcome try_outcome_fresh)
  have 13: "steps_file w = Some contents \<and> open_read env = None
      \<and> json_load env contents = Inr loaded
      \<and> new_agent env (replay_agent env b loaded) = None
      \<and> snd (agent_run env (replay_agent env b loaded) hooked_run)
          = Raises (BaseException_only msg) \<longrightarrow>
      snd (fetch_hmm env b w) = Raises (BaseException_only msg)"
    by (auto simp: fetch_hmm_outcome try_outcome_replay)
  show ?thesis
    using 1 2 3 4 5 6 7 8 9 10 11 12 13 by blast
qed

text \<open>
  A run that raises an \<^verbatim>\<open>Exception\<close> on the fresh path, and a trace file that does not
  parse on the replay path: both are printed and swallowed. A run that raises
  \<^verbatim>\<open>SystemExit(1)\<close> on the replay path reaches the caller.
\<close>

theorem fetch_hmm_swallows_Exception_witness:
  "steps_file no_trace = None
   \<and> snd (agent_run (example_env ([], Raises (Exception ''Browser closed'')))
        (fresh_agent (example_env ([], Raises (Exception ''Browser closed''))) ''SINI25432400'')
        hooked_run) = Raises (Exception ''Browser closed'')
   \<and> swallowed (example_env ([], Raises (Exception ''Browser closed''))) ''SINI25432400''
        no_trace ''Browser closed''
   \<and> steps_file (trace ''not json'') = Some ''not json''
   \<and> json_load (example_env (answered None)) ''not json''
        = Inl (Exception ''Expecting value: line 1 column 1 (char 0)'')
   \<and> swallowed (example_env (answered None)) ''SINI25432400'' (trace ''not json'')
        ''Expecting value: line 1 column 1 (char 0)''
   \<and> steps_file (trace done_text) = Some done_text
   \<and> snd (agent_run (example_env ([], Raises system_exit))
        (replay_agent (example_env ([], Raises system_exit)) ''SINI25432400'' [[(''done'', 1)]])
        hooked_run) = Raises system_exit
   \<and> snd (fetch_hmm (example_env ([], Raises system_exit)) ''SINI25432400'' (trace done_text))
       = Raises system_exit"
proof -
  have h: "steps_file no_trace = None" "steps_file (trace c) = Some c"
    "new_agent (example_env r) a = None" "open_read (example_env r) = None"
    "snd (agent_run (example_env ([], x)) a args) = x"
    "json_load (example_env r) ''not json''
       = Inl (Exception ''Expecting value: line 1 column 1 (char 0)'')"
    "json_load (example_env r) done_text = Inr [[(''done'', 1)]]"
    for a r args c x
    by (simp_all add: trace_def no_trace_def example_env_def example_json_load_def done_text_def)
  show ?thesis
    using h
      fetch_hmm_swallows_Exception
        [of "example_env ([], Raises (Exception ''Browser closed''))" "''SINI25432400''"
            no_trace no_trace "''Browser closed''" "''[]''" "[]"
            "\<lparr>final_result = None, model_actions = []\<rparr>"]
      fetch_hmm_swallows_Exception
        [of "example_env (answered None)" "''SINI25432400''"
            "trace ''not json''" no_trace "''Expecting value: line 1 column 1 (char 0)''"
            "''not json''" "[]" "\<lparr>final_result = None, model_actions = []\<rparr>"]
      fetch_hmm_swallows_Exception
        [of "example_env ([], Raises system_exit)" "''SINI25432400''"
            "trace done_text" no_trace "''1''" done_text "[[(''done'', 1)]]"
            "\<lparr>final_result = None, model_actions = []\<rparr>"]
    by (simp add: system_exit_def)
qed

text \<open>
  Claim C3 as stated fails for an exception that is not an instance of \<^verbatim>\<open>Exception\<close>: a
  \<^verbatim>\<open>KeyboardInterrupt\<close> raised while the agent runs passes the clause \<^verbatim>\<open>except Exception\<close>
  and reaches the caller.
\<close>

theorem fetch_hmm_propagates_interrupt_counterexample:
  "snd (agent_run (example_env ([], Raises keyboard_interrupt))
        (fresh_agent (example_env ([], Raises keyboard_interrupt)) ''SINI25432400'')
        hooked_run) = Raises keyboard_interrupt
   \<and> snd (fetch_hmm (example_env ([], Raises keyboard_interrupt)) ''SINI25432400'' no_trace)
       = Raises keyboard_interrupt"
  by (simp add: fetch_hmm_outcome try_outcome_fresh no_trace_def example_env_def
        keyboard_interrupt_def)

text \<open>
  Claim C6, as amended. On every run in which nothing raises, on the replay path and on
  the fresh path alike, \<^verbatim>\<open>fetch_hmm\<close> returns the agent's final answer as it is when that
  answer is a string that is not empty, and returns \<^verbatim>\<open>No results found\<close> when
  \<^verbatim>\<open>final_result()\<close> is \<^verbatim>\<open>None\<close> or empty. So the value is the sentinel exactly when there is
  no such answer or the answer is itself the text of the sentinel.
\<close>

theorem fetch_hmm_answer_or_sentinel:
  "(steps_file w = Some contents \<and> open_read env = None \<and> json_load env contents = Inr loaded
      \<and> new_agent env (replay_agent env b loaded) = None
      \<and> snd (agent_run env (replay_agent env b loaded) hooked_run) = Returns result \<longrightarrow>
      snd (fetch_hmm env b w) =
        Returns (if truthy (final_result result) then final_result result
                 else Some ''No results found''))
   \<and> (steps_file w = None \<and> new_agent env (fresh_agent env b) = None
      \<and> snd (agent_run env (fresh_agent env b) hooked_run) = Returns result
      \<and> (truthy (final_result result) \<longrightarrow>
            open_write env = None
            \<and> snd (json_dump env (save_actions_loop [] (model_actions result))) = None) \<longrightarrow>
      snd (fetch_hmm env b w) =
        Returns (if truthy (final_result result) then final_result result
                 else Some ''No results found''))
   \<and> ((if truthy (final_result result) then final_result result else Some ''No results found'')
        = Some ''No results found''
      \<longleftrightarrow> \<not> truthy (final_result result) \<or> final_result result = Some ''No results found'')"
proof (intro conjI impI)
  assume a: "steps_file w = Some contents \<and> open_read env = None
      \<and> json_load env contents = Inr loaded
      \<and> new_agent env (replay_agent env b loaded) = None
      \<and> snd (agent_run env (replay_agent env b loaded) hooked_run) = Returns result"
  then have s: "steps_file w = Some contents" by simp
  show "snd (fetch_hmm env b w) =
        Returns (if truthy (final_result result) then final_result result
                 else Some ''No results found'')"
    using a by (simp add: fetch_hmm_outcome try_outcome_replay[OF s])
next
  assume a: "steps_file w = None \<and> new_agent env (fresh_agent env b) = None
      \<and> snd (agent_run env (fresh_agent env b) hooked_run) = Returns result
      \<and> (truthy (final_result result) \<longrightarrow>
            open_write env = None
            \<and> snd (json_dump env (save_actions_loop [] (model_actions result))) = None)"
  then have s: "steps_file w = None" by simp
  show "snd (fetch_hmm env b w) =
        Returns (if truthy (final_result result) then final_result result
                 else Some ''No results found'')"
    using a by (simp add: fetch_hmm_outcome try_outcome_fresh[OF s])
next
  show "(if truthy (final_result result) then final_result result else Some ''No results found'')
        = Some ''No results found''
      \<longleftrightarrow> \<not> truthy (final_result result) \<or> final_result result = Some ''No results found''"
    by simp
qed

text \<open>A fresh run that answers in the announced format, and a replay run without an answer.\<close>

theorem fetch_hmm_answer_or_sentinel_witness:
  "steps_file no_trace = None
   \<and> truthy (Some example_answer)
   \<and> snd (fetch_hmm (example_env (answered (Some example_answer))) ''SINI25432400'' no_trace)
       = Returns (Some example_answer)
   \<and> steps_file (trace done_text) = Some done_text
   \<and> \<not> truthy None
   \<and> snd (fetch_hmm (example_env (answered None)) ''SINI25432400'' (trace done_text))
       = Returns (Some ''No results found'')"
proof -
  have h: "steps_file (trace done_text) = Some done_text" "steps_file no_trace = None"
    "new_agent (example_env r) a = None" "open_write (example_env r) = None"
    "open_read (example_env r) = None"
    "json_load (example_env r) done_text = Inr [[(''done'', 1)]]"
    "snd (agent_run (example_env (answered x)) a args) =
       Returns \<lparr>final_result = x,
                model_actions = [[(''done'', 1), (''interacted_element'', 0)]]\<rparr>"
    "truthy (Some example_answer)" "\<not> truthy None"
    "json_dump (example_env r) [[(''done'', 1)]] = (done_text, None)"
    for a r x args
    by (simp_all add: trace_def no_trace_def example_env_def answered_def truthy_def
          example_answer_def example_json_dump_def example_json_load_def done_text_def)
  show ?thesis
    using h
      fetch_hmm_answer_or_sentinel
        [of no_trace "''[]''" "example_env (answered (Some example_answer))" "[]"
            "''SINI25432400''"
            "\<lparr>final_result = Some example_answer,
              model_actions = [[(''done'', 1), (''interacted_element'', 0)]]\<rparr>"]
      fetch_hmm_answer_or_sentinel
        [of "trace done_text" done_text "example_env (answered None)" "[[(''done'', 1)]]"
            "''SINI25432400''"
            "\<lparr>final_result = None,
              model_actions = [[(''done'', 1), (''interacted_element'', 0)]]\<rparr>"]
    by simp
qed

text \<open>
  Claim C6 as stated fails when the agent's final answer is the text \<^verbatim>\<open>No results found\<close>:
  the agent did produce a final answer, and the value returned is the sentinel.
\<close>

theorem fetch_hmm_sentinel_answer_counterexample:
  "final_result \<lparr>final_result = Some ''No results found'',
                 model_actions = [[(''done'', 1 :: nat), (''interacted_element'', 0)]]\<rparr>
     = Some ''No results found''
   \<and> snd (agent_run (example_env (answered (Some ''No results found'')))
        (fresh_agent (example_env (answered (Some ''No results found''))) ''SINI25432400'')
        hooked_run)
     = Returns \<lparr>final_result = Some ''No results found'',
                model_actions = [[(''done'', 1), (''interacted_element'', 0)]]\<rparr>
   \<and> snd (fetch_hmm (example_env (answered (Some ''No results found''))) ''SINI25432400''
        no_trace) = Returns (Some ''No results found'')"
  by (simp add: fetch_hmm_outcome try_outcome_fresh no_trace_def example_env_def answered_def
        truthy_def example_json_dump_def)

text \<open>
  The final answer is passed on as it is, whatever its shape: with no trace file present,
  the answer \<^verbatim>\<open>Blocked by the website\<close> is returned, and it is neither of the shape
  \<^verbatim>\<open>Voyage: <text>, Arrival: <text>\<close> nor the sentinel.
\<close>

lemma fetch_hmm_passes_answer_unchecked:
  "steps_file no_trace = None
   \<and> snd (fetch_hmm (example_env (answered (Some ''Blocked by the website''))) ''SINI25432400''
        no_trace) = Returns (Some ''Blocked by the website'')
   \<and> \<not> voyage_arrival_format ''Blocked by the website''
   \<and> ''Blocked by the website'' \<noteq> ''No results found''"
  by (simp add: fetch_hmm_outcome try_outcome_fresh no_trace_def example_env_def answered_def
        truthy_def example_json_dump_def voyage_arrival_format_def)

text \<open>
  Claim C2. The docstring of \<^verbatim>\<open>fetch_hmm\<close> and its annotation \<^verbatim>\<open>-> str\<close> promise a string of
  the shape \<^verbatim>\<open>Voyage: <text>, Arrival: <text>\<close>, or \<^verbatim>\<open>No results found\<close> if tracking fails.
  The code does otherwise. With the booking identifier of the entry point and no trace
  file present, a run of the agent that raises an \<^verbatim>\<open>Exception\<close> is caught by the \<^verbatim>\<open>except\<close>
  clause, which prints it and has no \<^verbatim>\<open>return\<close>: the value of \<^verbatim>\<open>fetch_hmm\<close> is \<^verbatim>\<open>None\<close>, and
  the file is still absent.
\<close>

theorem fetch_hmm_returns_None_on_failed_run:
  "steps_file no_trace = None
   \<and> fetch_hmm (example_env ([], Raises (Exception ''Browser closed''))) ''SINI25432400''
        no_trace =
       (\<lparr>steps_file = None,
         events =
           [AgentInit
              (fresh_agent (example_env ([], Raises (Exception ''Browser closed'')))
                 ''SINI25432400''),
            AgentRun
              (fresh_agent (example_env ([], Raises (Exception ''Browser closed'')))
                 ''SINI25432400'')
              hooked_run,
            Print ''Error during cleanup: Browser closed'']\<rparr>,
        Returns None)"
  by (simp add: fetch_hmm_def fetch_hmm_try_def run_agent_def print_def no_trace_def
        example_env_def)

end
